theory Spec2Isabelle
  imports Main "HOL-Library.Sublist"
begin

section \<open>Python strings\<close>

text \<open>
  A Python \<open>str\<close> is a sequence of Unicode code points. The rules-phrase table of
  \<open>bot.py\<close> contains an em dash (U+2014), which is not a \<open>char\<close> of HOL, so a string
  is modelled as the list of its code points. \<open>str\<close> embeds an ASCII literal.
\<close>

type_synonym pystr = "nat list"

definition str :: "string \<Rightarrow> pystr" where
  "str cs = map of_char cs"

text \<open>
  \<open>str.lower()\<close>. The program calls it on the keys of its own tables only; those are
  ASCII apart from the em dash, which has no case, so lowering the ASCII capitals is what
  \<open>lower\<close> does on every string it is applied to.
\<close>

definition lower :: "pystr \<Rightarrow> pystr" where
  "lower s = map (\<lambda>c. if 65 \<le> c \<and> c \<le> 90 then c + 32 else c) s"

text \<open>
  \<open>s.replace(old, new)\<close>: the occurrences of \<open>old\<close> are found from the left and do not
  overlap; the scan resumes behind each occurrence, so text brought in by \<open>new\<close> is never
  looked at again. With an empty \<open>old\<close>, \<open>new\<close> is put before every character and at the
  end (\<open>"abc".replace("", "X") = "XaXbXcX"\<close>).
\<close>

fun replace :: "pystr \<Rightarrow> pystr \<Rightarrow> pystr \<Rightarrow> pystr" where
  "replace old new [] = (if old = [] then new else [])"
| "replace old new (c # cs) =
     (if old = [] then new @ c # replace old new cs
      else if prefix old (c # cs) then new @ replace old new (drop (length old) (c # cs))
      else c # replace old new cs)"

text \<open>
  \<open>re.sub(r'\(.*\)', '', text)\<close>. The star is greedy and the dot matches anything but
  a line feed (code point 10). At an opening parenthesis (40) the match runs to the last
  closing parenthesis (41) of the same line; \<open>greedy_end cs\<close> is the number of characters
  of \<open>cs\<close>, the text behind the opening parenthesis, that the match takes, and 0 when the
  rest of the line has no closing parenthesis, in which case there is no match at this
  position. The search goes on behind a match.
\<close>

definition greedy_end :: "pystr \<Rightarrow> nat" where
  "greedy_end cs = length (dropWhile (\<lambda>x. x \<noteq> 41) (rev (takeWhile (\<lambda>x. x \<noteq> 10) cs)))"

function re_sub_paren :: "pystr \<Rightarrow> pystr" where
  "re_sub_paren [] = []"
| "re_sub_paren (c # cs) =
     (if c = 40 \<and> greedy_end cs \<noteq> 0 then re_sub_paren (drop (greedy_end cs) cs)
      else c # re_sub_paren cs)"
  by pat_completeness auto
termination
  by (relation "measure length") auto

text \<open>
  \<open>str.isspace()\<close> on one character, which is also what \<open>\s\<close> matches in a \<open>str\<close>
  pattern: the 29 white-space code points of Unicode.
\<close>

definition isspace :: "nat \<Rightarrow> bool" where
  "isspace c \<longleftrightarrow>
     (9 \<le> c \<and> c \<le> 13) \<or> (28 \<le> c \<and> c \<le> 32) \<or> c = 133 \<or> c = 160 \<or> c = 5760 \<or>
     (8192 \<le> c \<and> c \<le> 8202) \<or> c = 8232 \<or> c = 8233 \<or> c = 8239 \<or> c = 8287 \<or> c = 12288"

text \<open>\<open>text.strip()\<close>: white space is dropped at both ends.\<close>

definition strip :: "pystr \<Rightarrow> pystr" where
  "strip s = rev (dropWhile isspace (rev (dropWhile isspace s)))"

text \<open>\<open>re.sub(r'\s+', ' ', s)\<close>: every maximal run of white space becomes one space (32).\<close>

function re_sub_space :: "pystr \<Rightarrow> pystr" where
  "re_sub_space [] = []"
| "re_sub_space (c # cs) =
     (if isspace c then 32 # re_sub_space (dropWhile isspace cs)
      else c # re_sub_space cs)"
  by pat_completeness auto
termination
  by (relation "measure length") (auto simp: length_dropWhile_le le_imp_less_Suc)

section \<open>The abbreviation tables\<close>

text \<open>
  A Python \<open>dict\<close> is iterated in insertion order, and the order of the rewrites matters,
  so each table is the list of its items in the order of the source.
\<close>

type_synonym mapping = "(pystr \<times> pystr) list"

definition SUPER_TYPE_MAPPING :: mapping where
  "SUPER_TYPE_MAPPING =
    [(str ''Artifact'', str ''A''),
     (str ''Aura'', str ''A2''),
     (str ''Creature'', str ''C''),
     (str ''Enchantment'', str ''E''),
     (str ''Instant'', str ''I''),
     (str ''Interrupt'', str ''I2''),
     (str ''Land'', str ''L''),
     (str ''Legendary'', str ''L2''),
     (str ''Planeswalker'', str ''P''),
     (str ''Sorcery'', str ''S'')]"

definition SUB_TYPE_MAPPING :: mapping where
  "SUB_TYPE_MAPPING =
    [(str ''Advisor'', str ''Ad''),
     (str ''Angel'', str ''An''),
     (str ''Artificer'', str ''Ar''),
     (str ''Assassin'', str ''As''),
     (str ''Barbarian'', str ''Ba''),
     (str ''Beast'', str ''Be''),
     (str ''Bird'', str ''Bi''),
     (str ''Cleric'', str ''Cl''),
     (str ''Construct'', str ''Co''),
     (str ''Demon'', str ''De''),
     (str ''Dinosaur'', str ''Di''),
     (str ''Dragon'', str ''Dr''),
     (str ''Dreadnought'', str ''Dr2''),
     (str ''Druid'', str ''Dr3''),
     (str ''Dwarf'', str ''Dw''),
     (str ''Elemental'', str ''El''),
     (str ''Equipment'', str ''Eq''),
     (str ''Faerie'', str ''Fa''),
     (str ''Goblin'', str ''Go''),
     (str ''Golem'', str ''Go2''),
     (str ''Horror'', str ''Ho''),
     (str ''Human'', str ''Hu''),
     (str ''Insect'', str ''In''),
     (str ''Juggernaut'', str ''Ju''),
     (str ''Lizard'', str ''Li''),
     (str ''Minotaur'', str ''Mi''),
     (str ''Mole'', str ''Mo''),
     (str ''Monk'', str ''Mo2''),
     (str ''Phyrexian'', str ''Ph''),
     (str ''Praetor'', str ''Pr''),
     (str ''Rat'', str ''Ra''),
     (str ''Scout'', str ''Sc''),
     (str ''Shapeshifter'', str ''Sh''),
     (str ''Soldier'', str ''So''),
     (str ''Thopter'', str ''Th''),
     (str ''Wall'', str ''Wa''),
     (str ''Warlock'', str ''Wa2''),
     (str ''Wizard'', str ''Wi''),
     (str ''Wurm'', str ''Wu''),
     (str ''Zombie'', str ''Zo'')]"

definition LAND_MAPPING :: mapping where
  "LAND_MAPPING =
    [(str ''Basic'', str ''BaL''),
     (str ''Forest'', str ''FoL''),
     (str ''Island'', str ''IsL''),
     (str ''Mountain'', str ''MoL''),
     (str ''Plains'', str ''PlL''),
     (str ''Swamp'', str ''SwL'')]"

definition RARITY_MAPPING :: mapping where
  "RARITY_MAPPING =
    [(str ''common'', str ''C''),
     (str ''uncommon'', str ''U''),
     (str ''rare'', str ''R''),
     (str ''mythic'', str ''M'')]"

definition KEYWORD_MAPPING :: mapping where
  "KEYWORD_MAPPING =
    [(str ''Deathtouch'', str ''DTH''),
     (str ''Flying'', str ''FLY''),
     (str ''Haste'', str ''HST''),
     (str ''Lifelink'', str ''LLK''),
     (str ''Menace'', str ''MEN''),
     (str ''Trample'', str ''TRP''),
     (str ''Vigilance'', str ''VIG''),
     (str ''Exile'', str ''EXL'')]"

definition NUMBER_MAPPING :: mapping where
  "NUMBER_MAPPING =
    [(str ''One'', str ''1''),
     (str ''Two'', str ''2''),
     (str ''Three'', str ''3''),
     (str ''Four'', str ''4''),
     (str ''First'', str ''1st''),
     (str ''Second'', str ''2nd''),
     (str ''Third'', str ''3rd'')]"

text \<open>
  The first key of \<open>TEXT_MAPPING\<close> is the line feed; the second is an em dash (8212)
  between two spaces, replaced by the em dash alone.
\<close>

definition TEXT_MAPPING :: mapping where
  "TEXT_MAPPING =
    [([10], str '' ''),
     ([32, 8212, 32], [8212]),
     (str ''+1/+1'', str ''PP''),
     (str ''At the beginning'', str ''ATB''),
     (str ''Combat'', str ''CBT''),
     (str ''Counter'', str ''CT''),
     (str ''Create'', str ''CTE''),
     (str ''Creature'', str ''CR''),
     (str ''Destroy target'', str ''DT''),
     (str ''Double strike'', str ''DS''),
     (str ''Draw a card'', str ''DAC''),
     (str ''Enchant creature'', str ''EC''),
     (str ''End of turn'', str ''EOT''),
     (str ''Enters the battlefield'', str ''ETB''),
     (str ''Exile target'', str ''EXT''),
     (str ''Leaves the battlefield'', str ''LTB''),
     (str ''Mana value'', str ''MV''),
     (str ''Permanent'', str ''PM''),
     (str ''Player'', str ''PYR''),
     (str ''Return target'', str ''RT''),
     (str ''Scry'', str ''SC''),
     (str ''Search your library'', str ''SYL''),
     (str ''Surveil'', str ''SU''),
     (str ''Target'', str ''TR''),
     (str ''Token'', str ''TKN''),
     (str ''Whenever'', str ''WN''),
     (str ''You control'', str ''YC''),
     (str ''You gain'', str ''YG'')]"

definition MANA_COST_MAPPING :: mapping where
  "MANA_COST_MAPPING = [(str ''{'', []), (str ''}'', [])]"

lemmas mapping_defs =
  SUPER_TYPE_MAPPING_def SUB_TYPE_MAPPING_def LAND_MAPPING_def RARITY_MAPPING_def
  KEYWORD_MAPPING_def NUMBER_MAPPING_def TEXT_MAPPING_def MANA_COST_MAPPING_def

section \<open>The loops over a table\<close>

text \<open>
  The loop written nine times in \<open>load_mtg_set\<close>:
  \<^verbatim>\<open>
  for from_str, to_str in MAPPING.items():
      s = s.replace(from_str, to_str)
      s = s.replace(from_str.lower(), to_str)
  \<close>
\<close>

fun apply_abbreviations :: "mapping \<Rightarrow> pystr \<Rightarrow> pystr" where
  "apply_abbreviations [] s = s"
| "apply_abbreviations ((from_str, to_str) # items) s =
     apply_abbreviations items (replace (lower from_str) to_str (replace from_str to_str s))"

text \<open>
  The loop of the three other places (the mana-cost symbols in the rules text, the card's
  name, the mana cost), which has the first of the two statements only:
  \<^verbatim>\<open>
  for from_str, to_str in MAPPING.items():
      s = s.replace(from_str, to_str)
  \<close>
\<close>

fun apply_replacements :: "mapping \<Rightarrow> pystr \<Rightarrow> pystr" where
  "apply_replacements [] s = s"
| "apply_replacements ((from_str, to_str) # items) s =
     apply_replacements items (replace from_str to_str s)"

section \<open>The rewriting steps of the loop of \<open>load_mtg_set\<close>\<close>

text \<open>Lines 266 to 279: the three tables applied to the type line.\<close>

definition abbreviate_card_type :: "pystr \<Rightarrow> pystr" where
  "abbreviate_card_type card_type =
     (let card_type = apply_abbreviations SUPER_TYPE_MAPPING card_type;
          card_type = apply_abbreviations SUB_TYPE_MAPPING card_type;
          card_type = apply_abbreviations LAND_MAPPING card_type
      in card_type)"

text \<open>Lines 281 to 314: the tables applied to the rules text.\<close>

definition abbreviate_text :: "pystr \<Rightarrow> pystr" where
  "abbreviate_text text =
     (let text = apply_abbreviations TEXT_MAPPING text;
          text = apply_abbreviations SUPER_TYPE_MAPPING text;
          text = apply_abbreviations SUB_TYPE_MAPPING text;
          text = apply_abbreviations LAND_MAPPING text;
          text = apply_abbreviations KEYWORD_MAPPING text;
          text = apply_abbreviations NUMBER_MAPPING text;
          text = apply_replacements MANA_COST_MAPPING text
      in text)"

text \<open>
  Lines 316 to 322: the explanation text is removed, the card's name is replaced by
  \<open>NAME\<close>, white space is cleaned up.
\<close>

definition clean_text :: "pystr \<Rightarrow> pystr \<Rightarrow> pystr" where
  "clean_text name text =
     (let text = re_sub_paren text;
          text = replace name (str ''NAME'') text;
          text = re_sub_space (strip text)
      in text)"

section \<open>Records and errors\<close>

text \<open>
  One row of the \<open>cards\<close> query, in the order of its columns, and also the dictionary
  that the loop appends for it (the keys are the names below; the key \<open>type\<close> is the
  variable \<open>card_type\<close>, and \<open>card_text\<close>, \<open>card_power\<close> are the source's \<open>text\<close>,
  \<open>power\<close>). A text column holds a string or NULL, which Python sees as \<open>None\<close>;
  the program never looks into the three numeric columns, whose values have type \<open>'v\<close>.
\<close>

record 'v card =
  artist :: "pystr option"
  card_type :: "pystr option"
  colors :: "pystr option"
  flavor_text :: "pystr option"
  is_full_art :: 'v
  is_reprint :: 'v
  mana_cost :: "pystr option"
  mana_value :: 'v
  name :: "pystr option"
  number :: "pystr option"
  original_release_date :: "pystr option"
  card_power :: "pystr option"
  rarity :: "pystr option"
  card_text :: "pystr option"
  toughness :: "pystr option"

text \<open>The dictionary \<open>set_data\<close>, with the keys \<open>name\<close>, \<open>release\<close>, \<open>type\<close>.\<close>

record set_data =
  set_name :: "pystr option"
  release :: "pystr option"
  set_type :: "pystr option"

text \<open>
  The exceptions that the program can raise on such rows: a method called on \<open>None\<close>
  (\<open>AttributeError\<close>), \<open>None\<close> passed to \<open>str.replace\<close> (\<open>TypeError\<close>), a key that a
  dictionary does not have (\<open>KeyError\<close>, with the key), and a local variable read
  before any assignment (\<open>UnboundLocalError\<close>).
\<close>

datatype error =
    AttributeError
  | TypeError
  | KeyError "pystr option"
  | UnboundLocalError

section \<open>Normalizing one card: the body of the loop\<close>

text \<open>
  The whole body. The statements run in the order of the source, so a row with NULL in
  several columns fails at the first of them: the type line (line 268), the rules text
  (line 283), the name (line 319), then the rarity (line 329), where \<open>None\<close> is a key
  that \<open>RARITY_MAPPING\<close> does not have, like any string but its four. The mana cost is
  rewritten only when it is neither \<open>None\<close> nor empty (\<open>if mana_cost:\<close>).
\<close>

definition normalize_card :: "'v card \<Rightarrow> error + 'v card" where
  "normalize_card row =
     (case card_type row of
        None \<Rightarrow> Inl AttributeError
      | Some ctype \<Rightarrow>
     (case card_text row of
        None \<Rightarrow> Inl AttributeError
      | Some text \<Rightarrow>
     (case name row of
        None \<Rightarrow> Inl TypeError
      | Some nm \<Rightarrow>
     (case Option.bind (rarity row) (map_of RARITY_MAPPING) of
        None \<Rightarrow> Inl (KeyError (rarity row))
      | Some r \<Rightarrow>
          Inr (row\<lparr>
            card_type := Some (abbreviate_card_type ctype),
            card_text := Some (clean_text nm (abbreviate_text text)),
            name := Some (apply_replacements LAND_MAPPING nm),
            rarity := Some r,
            mana_cost :=
              (case mana_cost row of
                 None \<Rightarrow> None
               | Some m \<Rightarrow> if m = [] then Some m else Some (apply_replacements MANA_COST_MAPPING m))
          \<rparr>)))))"

section \<open>The database and \<open>load_mtg_set\<close>\<close>

text \<open>
  The two tables that the queries read, with the columns they name. A row of \<open>cards\<close>
  is its \<open>setCode\<close> and the fifteen selected columns.
\<close>

record sets_row =
  code :: "pystr option"
  row_name :: "pystr option"
  releaseDate :: "pystr option"
  row_type :: "pystr option"

record 'v database =
  sets_table :: "sets_row list"
  cards_table :: "(pystr option \<times> 'v card) list"

text \<open>
  \<open>SELECT name, releaseDate, type FROM sets WHERE code = ? LIMIT 1\<close>. A comparison
  with NULL is not true, so a row whose code is NULL is never selected.
\<close>

definition select_set :: "'v database \<Rightarrow> pystr \<Rightarrow> sets_row list" where
  "select_set db set_code = take 1 (filter (\<lambda>r. code r = Some set_code) (sets_table db))"

text \<open>\<open>SELECT ... FROM cards WHERE setCode = ? AND (colors = 'U')\<close>.\<close>

definition select_cards :: "'v database \<Rightarrow> pystr \<Rightarrow> 'v card list" where
  "select_cards db set_code =
     map snd (filter (\<lambda>(setCode, row). setCode = Some set_code \<and> colors row = Some (str ''U''))
       (cards_table db))"

text \<open>
  The loop over the selected cards: each normalized card is appended to \<open>cards\<close>, and an
  exception in the body ends the function.
\<close>

fun normalize_rows :: "'v card list \<Rightarrow> 'v card list \<Rightarrow> error + 'v card list" where
  "normalize_rows cards [] = Inr cards"
| "normalize_rows cards (row # rows) =
     (case normalize_card row of
        Inl e \<Rightarrow> Inl e
      | Inr c \<Rightarrow> normalize_rows (cards @ [c]) rows)"

text \<open>
  \<open>set_data\<close> is assigned in the body of the first loop only, so it is unbound
  (\<open>None\<close> here) when the query has no row, and the \<open>return\<close> statement at the end, the
  first to read it, raises \<open>UnboundLocalError\<close> then.
\<close>

definition load_mtg_set :: "'v database \<Rightarrow> pystr \<Rightarrow> error + set_data \<times> 'v card list" where
  "load_mtg_set db set_code =
     (let set_data =
            fold (\<lambda>r _. Some \<lparr>set_name = row_name r, release = releaseDate r, set_type = row_type r\<rparr>)
              (select_set db set_code) None
      in case normalize_rows [] (select_cards db set_code) of
           Inl e \<Rightarrow> Inl e
         | Inr cards \<Rightarrow>
             (case set_data of
                None \<Rightarrow> Inl UnboundLocalError
              | Some sd \<Rightarrow> Inr (sd, cards)))"

section \<open>The prompt\<close>

text \<open>
  \<open>csv.DictWriter\<close> with the delimiter \<open>|\<close> (124), the line terminator \<open>\n\<close> and the
  defaults otherwise: \<open>None\<close> is written as the empty string; a field that contains the
  delimiter, the quote character \<open>"\<close> (34), a line feed or a carriage return (13) is put
  between quote characters, with every quote character in it doubled.
\<close>

definition csv_field :: "pystr option \<Rightarrow> pystr" where
  "csv_field v =
     (let s = (case v of None \<Rightarrow> [] | Some s \<Rightarrow> s)
      in if list_ex (\<lambda>c. c = 124 \<or> c = 34 \<or> c = 10 \<or> c = 13) s
         then 34 # concat (map (\<lambda>c. if c = 34 then [34, 34] else [c]) s) @ [34]
         else s)"

fun join :: "pystr \<Rightarrow> pystr list \<Rightarrow> pystr" where
  "join sep [] = []"
| "join sep [x] = x"
| "join sep (x # y # ys) = x @ sep @ join sep (y # ys)"

definition csv_row :: "pystr option list \<Rightarrow> pystr" where
  "csv_row vs = join [124] (map csv_field vs) @ [10]"

definition explain_set :: "set_data \<Rightarrow> pystr" where
  "explain_set set_data =
     csv_row [Some (str ''name''), Some (str ''release''), Some (str ''type'')] @
     csv_row [set_name set_data, release set_data, set_type set_data]"

definition explain_cards :: "'v card list \<Rightarrow> pystr" where
  "explain_cards cards =
     csv_row [Some (str ''type''), Some (str ''mana_cost''), Some (str ''name''),
              Some (str ''power''), Some (str ''toughness''), Some (str ''rarity''),
              Some (str ''text'')] @
     concat (map (\<lambda>c. csv_row [card_type c, mana_cost c, name c, card_power c,
                               toughness c, rarity c, card_text c]) cards)"

definition generate_prompt :: "set_data \<Rightarrow> 'v card list \<Rightarrow> pystr" where
  "generate_prompt set_data cards =
     (let set_explanation = explain_set set_data;
          cards_explanation = explain_cards cards
      in set_explanation @ cards_explanation)"

text \<open>The constant \<open>PROMPT\<close>: a line feed, then the lines of the template.\<close>

definition PROMPT :: pystr where
  "PROMPT = 10 # concat (map (\<lambda>l. str l @ [10])
    [''You are MTGBot. You have expert level experience with Magic: The Gathering competitive drafting.'',
     ''You will be generating a very high quality article in the voice of MTG Hall of Famer Reid Duke.'',
     ''I'm going to give you a list of all the cards of one color from a recent expansion set.'',
     ''Your task is to parse the data and:'',
     ''    * determine if it would be viable to play a mono-color deck of that color (be realistic!)'',
     ''      * remember the typical optimal distribution of card types:'',
     ''        * 17 lands'',
     ''        * 15 creatures'',
     ''        * 8 non-creature spells'',
     ''      * be willing to bend the typical distribution'',
     ''    * what the general theme of the deck might be'',
     ''      * if there are multiple options, mention it'',
     ''    * some key cards to look for'',
     ''      * dont just focus on rare and mythic cards'',
     ''    * interesting combinations of cards'',
     ''      * look for unexpected synergy that other players might miss and thus will be under-drafted'',
     ''    * think about cards that are more useful in a mono-color deck'',
     ''    * dont forget a win condition'',
     '''',
     ''Your output should include:'',
     ''    * a quick brainstorming session based on the cards you just saw'',
     ''    * once you understand all the cards and how they might work together, write the article'',
     ''      in the format of a blog post'',
     '''',
     ''Good luck, you'll do great!'',
     '''',
     ''Your input:''])"

text \<open>
  \<open>main\<close>: the API key is read from the environment first (\<open>os.environ[...]\<close> raises
  \<open>KeyError\<close> without it), then the set is loaded and the prompt is printed. The result
  is what \<open>print\<close> writes: its argument and a line feed.
\<close>

definition get_api_key :: "(pystr \<rightharpoonup> pystr) \<Rightarrow> error + pystr" where
  "get_api_key environ =
     (case environ (str ''MTG_BOT_OPENAI_API_KEY'') of
        None \<Rightarrow> Inl (KeyError (Some (str ''MTG_BOT_OPENAI_API_KEY'')))
      | Some v \<Rightarrow> Inr v)"

definition main :: "(pystr \<rightharpoonup> pystr) \<Rightarrow> 'v database \<Rightarrow> pystr \<Rightarrow> error + pystr" where
  "main environ db set_code =
     (case get_api_key environ of
        Inl e \<Rightarrow> Inl e
      | Inr api_key \<Rightarrow>
          (case load_mtg_set db set_code of
             Inl e \<Rightarrow> Inl e
           | Inr (set_data, cards) \<Rightarrow>
               (let gpt_prompt = generate_prompt set_data cards
                in Inr (gpt_prompt @ [10]))))"

section \<open>The two ways of applying a table, in the words of the specification\<close>

text \<open>
  The specification describes an application of a table (section 4.1): for every pair,
  the pattern is replaced as it is written, then its all-lowercase variant is replaced
  by the same code. \<open>spec_two_passes\<close> is that description; \<open>spec_exact_pass\<close> is the
  application with the first of the two passes only. They are compared with the loops
  of the source below.
\<close>

definition spec_two_passes :: "mapping \<Rightarrow> pystr \<Rightarrow> pystr" where
  "spec_two_passes m s = fold (\<lambda>(pattern, code) s. replace (lower pattern) code (replace pattern code s)) m s"

definition spec_exact_pass :: "mapping \<Rightarrow> pystr \<Rightarrow> pystr" where
  "spec_exact_pass m s = fold (\<lambda>(pattern, code) s. replace pattern code s) m s"

section \<open>A sample row\<close>

text \<open>
  A blue instant with a short rules text, used to run the definitions: the type line
  \<open>Instant\<close>, the mana cost \<open>{U}\<close>, the name \<open>Opt\<close> and the rules text
  \<open>Opt: Scry 1. (x)\<close>, which names the card and ends with an explanation.
\<close>

definition opt_row :: "unit card" where
  "opt_row = \<lparr>artist = Some (str ''A''), card_type = Some (str ''Instant''), colors = Some (str ''U''),
     flavor_text = None, is_full_art = (), is_reprint = (), mana_cost = Some (str ''{U}''),
     mana_value = (), name = Some (str ''Opt''), number = Some (str ''60''),
     original_release_date = None, card_power = None, rarity = Some (str ''common''),
     card_text = Some (str ''Opt: Scry 1. (x)''), toughness = None\<rparr>"

text \<open>
  The normalized card that \<open>normalize_card\<close> makes of the sample row, a set with the
  sample row in its \<open>cards\<close> table (beside a red card of the same set and a card of a
  set that has no row in \<open>sets\<close>), the \<open>set_data\<close> of that set, and an environment
  that holds the API key.
\<close>

definition opt_card :: "unit card" where
  "opt_card = opt_row\<lparr>card_type := Some (str ''I''), card_text := Some (str ''NAME: SC 1.''),
      rarity := Some (str ''C''), mana_cost := Some (str ''U'')\<rparr>"

definition dom_db :: "unit database" where
  "dom_db = \<lparr>
     sets_table =
       [\<lparr>code = Some (str ''DOM''), row_name = Some (str ''Dominaria''),
         releaseDate = Some (str ''2018-04-27''), row_type = Some (str ''expansion'')\<rparr>],
     cards_table =
       [(Some (str ''DOM''), opt_row),
        (Some (str ''DOM''), opt_row\<lparr>colors := Some (str ''R''), name := Some (str ''Shock'')\<rparr>),
        (Some (str ''M19''), opt_row)]\<rparr>"

definition dom_set :: set_data where
  "dom_set = \<lparr>set_name = Some (str ''Dominaria''), release = Some (str ''2018-04-27''),
     set_type = Some (str ''expansion'')\<rparr>"

definition api_key_set :: "pystr \<rightharpoonup> pystr" where
  "api_key_set = [str ''MTG_BOT_OPENAI_API_KEY'' \<mapsto> str ''sk'']"

text \<open>
  The basic land \<open>Forest\<close>, with its type line \<open>Basic Land\<close>, em dash, \<open>Forest\<close>.
\<close>

definition forest_row :: "unit card" where
  "forest_row = \<lparr>artist = Some (str ''A''),
     card_type = Some (str ''Basic Land '' @ [8212] @ str '' Forest''), colors = None,
     flavor_text = None, is_full_art = (), is_reprint = (), mana_cost = None,
     mana_value = (), name = Some (str ''Forest''), number = Some (str ''266''),
     original_release_date = None, card_power = None, rarity = Some (str ''common''),
     card_text = Some (str ''({T}: Add {G}.)''), toughness = None\<rparr>"

section \<open>All tables together\<close>

text \<open>
  The items of the eight tables, and the keys of at most three characters among them
  (every other key has four or more).
\<close>

definition all_mappings :: mapping where
  "all_mappings = TEXT_MAPPING @ SUPER_TYPE_MAPPING @ SUB_TYPE_MAPPING @ LAND_MAPPING @
     RARITY_MAPPING @ KEYWORD_MAPPING @ NUMBER_MAPPING @ MANA_COST_MAPPING"

definition short_keys :: "pystr list" where
  "short_keys = [[10], [32, 8212, 32], str ''One'', str ''Two'', str ''Rat'', str ''{'', str ''}'']"

section \<open>The placeholder and the name\<close>

text \<open>
  \<open>overlaps_placeholder nm\<close> says that the name and the placeholder \<open>NAME\<close> overlap:
  one of them occurs in the other, or a non-empty beginning of \<open>NAME\<close> (\<open>N\<close>, \<open>NA\<close>,
  \<open>NAM\<close>) ends the name, or a non-empty end of \<open>NAME\<close> (\<open>E\<close>, \<open>ME\<close>, \<open>AME\<close>) begins
  it. The empty name overlaps, since it occurs in \<open>NAME\<close>.
\<close>

definition overlaps_placeholder :: "pystr \<Rightarrow> bool" where
  "overlaps_placeholder nm \<longleftrightarrow>
     sublist nm (str ''NAME'') \<or> sublist (str ''NAME'') nm \<or>
     list_ex (\<lambda>p. p \<noteq> [] \<and> suffix p nm) (prefixes (str ''NAME'')) \<or>
     list_ex (\<lambda>q. q \<noteq> [] \<and> prefix q nm) (suffixes (str ''NAME''))"

section \<open>Facts about the string operations\<close>

lemma replace_absent: "old \<noteq> [] \<Longrightarrow> \<not> sublist old s \<Longrightarrow> replace old new s = s"
  by (induction s) (auto simp: sublist_Cons_right)

lemma apply_replacements_absent:
  "\<forall>(k, v)\<in>set m. k \<noteq> [] \<and> \<not> sublist k s \<Longrightarrow> apply_replacements m s = s"
  by (induction m) (auto simp: replace_absent)

lemma apply_abbreviations_absent:
  "\<forall>(k, v)\<in>set m. k \<noteq> [] \<and> \<not> sublist k s \<and> \<not> sublist (lower k) s \<Longrightarrow>
   apply_abbreviations m s = s"
  by (induction m) (auto simp: replace_absent lower_def)

lemma overlaps_placeholderD:
  assumes "\<not> overlaps_placeholder nm"
  shows "nm \<noteq> []" "\<not> sublist nm (str ''NAME'')" "\<not> sublist (str ''NAME'') nm"
    "\<And>p. p \<noteq> [] \<Longrightarrow> prefix p (str ''NAME'') \<Longrightarrow> \<not> suffix p nm"
    "\<And>q. q \<noteq> [] \<Longrightarrow> suffix q (str ''NAME'') \<Longrightarrow> \<not> prefix q nm"
  using assms by (auto simp: overlaps_placeholder_def list_ex_iff)

lemma prefix_append_cases: "prefix p (xs @ ys) \<Longrightarrow> prefix p xs \<or> prefix xs p"
  by (auto simp: prefix_append)

lemma prefix_replace_reaches:
  "old \<noteq> [] \<Longrightarrow> prefix p (replace old new s) \<Longrightarrow>
     prefix p s \<or> (\<exists>x y. p = x @ y \<and> y \<noteq> [] \<and> (prefix y new \<or> prefix new y))"
proof (induction old new s arbitrary: p rule: replace.induct)
  case (1 old new)
  then show ?case by simp
next
  case (2 old new c cs)
  show ?case
  proof (cases p)
    case Nil
    then show ?thesis by simp
  next
    case (Cons a p')
    show ?thesis
    proof -
      have False: "old \<noteq> []"
        using "2.prems" by simp
      show ?thesis
      proof (cases "prefix old (c # cs)")
        case True
        with "2.prems" False have "prefix p (new @ replace old new (drop (length old) (c # cs)))"
          by simp
        then have "prefix p new \<or> prefix new p"
          by (rule prefix_append_cases)
        moreover have "p = [] @ p" "p \<noteq> []"
          using Cons by simp_all
        ultimately show ?thesis
          by blast
      next
        case nomatch: False
        with "2.prems" False Cons have ac: "a = c" and pre: "prefix p' (replace old new cs)"
          by auto
        from "2.IH"(3) [OF False nomatch False pre]
        show ?thesis
        proof
          assume "prefix p' cs"
          with ac Cons show ?thesis by simp
        next
          assume "\<exists>x y. p' = x @ y \<and> y \<noteq> [] \<and> (prefix y new \<or> prefix new y)"
          then obtain x y where "p' = x @ y" "y \<noteq> []" "prefix y new \<or> prefix new y"
            by blast
          then have "p = (a # x) @ y \<and> y \<noteq> [] \<and> (prefix y new \<or> prefix new y)"
            using Cons by simp
          then show ?thesis by blast
        qed
      qed
    qed
  qed
qed

lemma not_sublist_placeholder_append:
  assumes "\<not> overlaps_placeholder nm" "\<not> sublist nm r"
  shows "\<not> sublist nm (str ''NAME'' @ r)"
proof
  assume "sublist nm (str ''NAME'' @ r)"
  then obtain q where q: "suffix q (str ''NAME'' @ r)" "prefix nm q"
    unfolding sublist_altdef' by blast
  from q(1) have "suffix q r \<or> (\<exists>q'. suffix q' (str ''NAME'') \<and> q = q' @ r)"
    unfolding suffix_append by blast
  then show False
  proof
    assume "suffix q r"
    with q(2) have "sublist nm r"
      unfolding sublist_altdef' by blast
    with assms(2) show False ..
  next
    assume "\<exists>q'. suffix q' (str ''NAME'') \<and> q = q' @ r"
    then obtain q' where q': "suffix q' (str ''NAME'')" "q = q' @ r"
      by blast
    show False
    proof (cases "q' = []")
      case True
      with q' q(2) have "sublist nm r"
        by simp
      with assms(2) show False ..
    next
      case False
      from q(2) q'(2) have "prefix nm q' \<or> prefix q' nm"
        by (simp add: prefix_append_cases)
      then show False
      proof
        assume "prefix nm q'"
        with q'(1) have "sublist nm (str ''NAME'')"
          unfolding sublist_altdef' by blast
        with overlaps_placeholderD(2) [OF assms(1)] show False ..
      next
        assume "prefix q' nm"
        with overlaps_placeholderD(5) [OF assms(1) False q'(1)] show False ..
      qed
    qed
  qed
qed

lemma replace_placeholder_no_occurrence:
  "\<not> overlaps_placeholder nm \<Longrightarrow> \<not> sublist nm (replace nm (str ''NAME'') s)"
proof (induction nm "str ''NAME''" s rule: replace.induct)
  case (1 old)
  then show ?case using overlaps_placeholderD(1) by simp
next
  case (2 old c cs)
  note no = \<open>\<not> overlaps_placeholder old\<close>
  note ne = overlaps_placeholderD(1) [OF no]
  show ?case
  proof (cases "prefix old (c # cs)")
    case True
    have "\<not> sublist old (replace old (str ''NAME'') (drop (length old) (c # cs)))"
      using 2 True ne by simp
    with no have "\<not> sublist old (str ''NAME'' @ replace old (str ''NAME'') (drop (length old) (c # cs)))"
      by (rule not_sublist_placeholder_append)
    then show ?thesis
      using True ne by simp
  next
    case False
    have ih: "\<not> sublist old (replace old (str ''NAME'') cs)"
      using 2 False ne by simp
    have "\<not> prefix old (replace old (str ''NAME'') (c # cs))"
    proof
      assume "prefix old (replace old (str ''NAME'') (c # cs))"
      from prefix_replace_reaches [OF ne this] False
      obtain x y where xy: "old = x @ y" "y \<noteq> []"
        "prefix y (str ''NAME'') \<or> prefix (str ''NAME'') y"
        by blast
      from xy(3) show False
      proof
        assume "prefix y (str ''NAME'')"
        from overlaps_placeholderD(4) [OF no xy(2) this] xy(1) show False
          by (simp add: suffix_def)
      next
        assume "prefix (str ''NAME'') y"
        then have "sublist (str ''NAME'') old"
          using xy(1) by (auto simp: prefix_def sublist_def)
        with overlaps_placeholderD(3) [OF no] show False ..
      qed
    qed
    with ih show ?thesis
      using False ne by (simp add: sublist_Cons_right)
  qed
qed

lemma join_Cons: "ps \<noteq> [] \<Longrightarrow> join sep (x # ps) = x @ sep @ join sep ps"
  by (cases ps) simp_all

lemma join_Cons_Cons: "join sep ((c # x) # xs) = c # join sep (x # xs)"
  by (cases xs) simp_all

lemma prefix_join_hd: "prefix x (join sep (x # xs))"
  by (cases xs) simp_all

lemma replace_pieces:
  "old \<noteq> [] \<Longrightarrow>
   \<exists>pieces. pieces \<noteq> [] \<and> s = join old pieces \<and> replace old new s = join new pieces \<and>
     (\<forall>p\<in>set pieces. \<not> sublist old p)"
proof (induction old new s rule: replace.induct)
  case (1 old new)
  then have "[[]] \<noteq> [] \<and> [] = join old [[]] \<and> replace old new [] = join new [[]] \<and>
      (\<forall>p\<in>set [[]]. \<not> sublist old p)"
    by simp
  then show ?case by blast
next
  case (2 old new c cs)
  note ne = \<open>old \<noteq> []\<close>
  show ?case
  proof (cases "prefix old (c # cs)")
    case True
    from "2.IH"(2) [OF ne True ne] obtain ps where ps: "ps \<noteq> []"
      "drop (length old) (c # cs) = join old ps"
      "replace old new (drop (length old) (c # cs)) = join new ps"
      "\<forall>p\<in>set ps. \<not> sublist old p"
      by blast
    from True have "c # cs = old @ drop (length old) (c # cs)"
      by (metis append_eq_conv_conj prefix_def)
    with ps have "c # cs = join old ([] # ps)"
      by (simp add: join_Cons)
    moreover have "replace old new (c # cs) = join new ([] # ps)"
      using True ne ps by (simp add: join_Cons)
    moreover have "\<forall>p\<in>set ([] # ps). \<not> sublist old p"
      using ps(4) ne by simp
    ultimately show ?thesis
      by blast
  next
    case False
    from "2.IH"(3) [OF ne False ne] obtain ps where ps: "ps \<noteq> []"
      "cs = join old ps" "replace old new cs = join new ps" "\<forall>p\<in>set ps. \<not> sublist old p"
      by blast
    then obtain p0 ps' where p0: "ps = p0 # ps'"
      by (cases ps) auto
    have "c # cs = join old ((c # p0) # ps')"
      using ps(2) p0 by (simp add: join_Cons_Cons)
    moreover have "replace old new (c # cs) = join new ((c # p0) # ps')"
      using False ne ps(3) p0 by (simp add: join_Cons_Cons)
    moreover have "\<not> sublist old (c # p0)"
    proof -
      have "prefix (c # p0) (c # cs)"
        using ps(2) p0 prefix_join_hd by simp
      with False have "\<not> prefix old (c # p0)"
        using prefix_order.order_trans by blast
      moreover have "\<not> sublist old p0"
        using ps(4) p0 by simp
      ultimately show ?thesis
        by (simp add: sublist_Cons_right)
    qed
    then have "\<forall>p\<in>set ((c # p0) # ps'). \<not> sublist old p"
      using ps(4) p0 by simp
    ultimately show ?thesis
      by blast
  qed
qed

lemma prefix_re_sub_space_preimage:
  "prefix p (re_sub_space s) \<Longrightarrow> \<exists>w. prefix w s \<and> re_sub_space w = p"
proof (induction s arbitrary: p rule: re_sub_space.induct)
  case 1
  then have "prefix [] [] \<and> re_sub_space [] = p" by simp
  then show ?case by blast
next
  case (2 c cs)
  show ?case
  proof (cases p)
    case Nil
    then have "prefix [] (c # cs) \<and> re_sub_space [] = p" by simp
    then show ?thesis by blast
  next
    case (Cons a p')
    show ?thesis
    proof (cases "isspace c")
      case True
      with "2.prems" Cons have a: "a = 32"
        and pre: "prefix p' (re_sub_space (dropWhile isspace cs))"
        by simp_all
      from "2.IH"(1) [OF True pre] obtain w' where w': "prefix w' (dropWhile isspace cs)"
        "re_sub_space w' = p'"
        by blast
      have "dropWhile isspace w' = w'"
      proof (cases w')
        case Nil
        then show ?thesis by simp
      next
        case (Cons b w'')
        with w'(1) obtain zs where "dropWhile isspace cs = b # (w'' @ zs)"
          by (auto simp: prefix_def)
        then have "\<not> isspace b"
          by (simp add: dropWhile_eq_Cons_conv)
        with Cons show ?thesis by simp
      qed
      moreover have "dropWhile isspace (takeWhile isspace cs @ w') = dropWhile isspace w'"
        by (rule dropWhile_append2) (auto dest: set_takeWhileD)
      ultimately have "dropWhile isspace (takeWhile isspace cs @ w') = w'"
        by simp
      with True w'(2) a Cons have "re_sub_space (c # takeWhile isspace cs @ w') = p"
        by simp
      moreover have "prefix (c # takeWhile isspace cs @ w') (c # cs)"
      proof -
        from w'(1) have "prefix (takeWhile isspace cs @ w') (takeWhile isspace cs @ dropWhile isspace cs)"
          by (simp only: same_prefix_prefix)
        then show ?thesis by simp
      qed
      ultimately show ?thesis by blast
    next
      case False
      with "2.prems" Cons have a: "a = c" and pre: "prefix p' (re_sub_space cs)"
        by simp_all
      from "2.IH"(2) [OF False pre] obtain w' where "prefix w' cs" "re_sub_space w' = p'"
        by blast
      with False a Cons have "prefix (c # w') (c # cs) \<and> re_sub_space (c # w') = p"
        by simp
      then show ?thesis by blast
    qed
  qed
qed

lemma sublist_re_sub_space_preimage:
  "sublist p (re_sub_space s) \<Longrightarrow> \<exists>w. sublist w s \<and> re_sub_space w = p"
proof (induction s rule: re_sub_space.induct)
  case 1
  then have "sublist [] [] \<and> re_sub_space [] = p" by simp
  then show ?case by blast
next
  case (2 c cs)
  from "2.prems" have "prefix p (re_sub_space (c # cs)) \<or>
      sublist p (if isspace c then re_sub_space (dropWhile isspace cs) else re_sub_space cs)"
    by (auto simp: sublist_Cons_right)
  then show ?case
  proof
    assume "prefix p (re_sub_space (c # cs))"
    from prefix_re_sub_space_preimage [OF this] obtain w where
      "prefix w (c # cs)" "re_sub_space w = p"
      by blast
    then have "sublist w (c # cs) \<and> re_sub_space w = p"
      by simp
    then show ?thesis by blast
  next
    assume rest: "sublist p (if isspace c then re_sub_space (dropWhile isspace cs) else re_sub_space cs)"
    show ?thesis
    proof (cases "isspace c")
      case True
      with rest "2.IH"(1) obtain w where w: "sublist w (dropWhile isspace cs)" "re_sub_space w = p"
        by auto
      have "sublist (dropWhile isspace cs) (c # cs)"
        by (metis sublist_dropWhile sublist_Cons_right)
      with w(1) have "sublist w (c # cs)"
        using sublist_order.order_trans by blast
      with w(2) show ?thesis by blast
    next
      case False
      with rest "2.IH"(2) obtain w where "sublist w cs" "re_sub_space w = p"
        by auto
      then have "sublist w (c # cs) \<and> re_sub_space w = p"
        by (simp add: sublist_Cons_right)
      then show ?thesis by blast
    qed
  qed
qed

lemma re_sub_space_no_space:
  "32 \<notin> set (re_sub_space w) \<Longrightarrow> re_sub_space w = w"
  by (induction w rule: re_sub_space.induct) (auto split: if_splits)

lemma sublist_strip: "sublist (strip s) s"
proof -
  have "sublist (rev (dropWhile isspace (rev (dropWhile isspace s)))) (dropWhile isspace s)"
    by (metis sublist_dropWhile sublist_rev_left)
  moreover have "sublist (dropWhile isspace s) s" by simp
  ultimately show ?thesis
    unfolding strip_def using sublist_order.order_trans by blast
qed

lemma apply_abbreviations_fold: "apply_abbreviations m s = spec_two_passes m s"
  unfolding spec_two_passes_def by (induction m s rule: apply_abbreviations.induct) auto

lemma apply_replacements_fold: "apply_replacements m s = spec_exact_pass m s"
  unfolding spec_exact_pass_def by (induction m s rule: apply_replacements.induct) auto

lemma replace_single_delete: "replace [x] [] s = filter (\<lambda>c. c \<noteq> x) s"
  by (induction s) auto

lemma strip_braces_two_passes:
  "spec_exact_pass MANA_COST_MAPPING s = spec_two_passes MANA_COST_MAPPING s"
  by (simp add: spec_exact_pass_def spec_two_passes_def MANA_COST_MAPPING_def str_def lower_def
      replace_single_delete)

section \<open>Facts about \<open>normalize_card\<close>\<close>

lemma normalize_card_InrD:
  assumes "normalize_card row = Inr c"
  shows "\<exists>ctype text nm k r.
     card_type row = Some ctype \<and> card_text row = Some text \<and> name row = Some nm \<and>
     rarity row = Some k \<and> map_of RARITY_MAPPING k = Some r \<and>
     card_type c = Some (abbreviate_card_type ctype) \<and>
     card_text c = Some (clean_text nm (abbreviate_text text)) \<and>
     name c = Some (apply_replacements LAND_MAPPING nm) \<and>
     rarity c = Some r \<and>
     mana_cost c = map_option (apply_replacements MANA_COST_MAPPING) (mana_cost row) \<and>
     colors c = colors row"
  using assms
  by (auto simp: normalize_card_def MANA_COST_MAPPING_def split: option.splits Option.bind_splits)

lemma normalize_card_InrI:
  assumes "card_type row \<noteq> None" "card_text row \<noteq> None" "name row \<noteq> None"
    "rarity row = Some k" "map_of RARITY_MAPPING k \<noteq> None"
  shows "\<exists>c. normalize_card row = Inr c"
  using assms by (auto simp: normalize_card_def)

lemma opt_type: "abbreviate_card_type (str ''Instant'') = str ''I''"
  by (simp add: abbreviate_card_type_def mapping_defs str_def lower_def)

lemma opt_text: "abbreviate_text (str ''Opt: Scry 1. (x)'') = str ''Opt: SC 1. (x)''"
  by (simp add: abbreviate_text_def mapping_defs str_def lower_def)

lemma opt_clean: "clean_text (str ''Opt'') (str ''Opt: SC 1. (x)'') = str ''NAME: SC 1.''"
  by (simp add: clean_text_def str_def strip_def isspace_def greedy_end_def)

lemma normalize_opt_row:
  "normalize_card opt_row = Inr (opt_row\<lparr>card_type := Some (str ''I''), card_text := Some (str ''NAME: SC 1.''),
      rarity := Some (str ''C''), mana_cost := Some (str ''U'')\<rparr>)"
proof -
  have "apply_replacements LAND_MAPPING (str ''Opt'') = str ''Opt''"
    by (simp add: LAND_MAPPING_def str_def)
  moreover have "apply_replacements MANA_COST_MAPPING (str ''{U}'') = str ''U''"
    by (simp add: MANA_COST_MAPPING_def str_def)
  moreover have "map_of RARITY_MAPPING (str ''common'') = Some (str ''C'')"
    by (simp add: RARITY_MAPPING_def str_def)
  moreover have "str ''{U}'' \<noteq> []"
    by (simp add: str_def)
  ultimately show ?thesis
    by (simp add: normalize_card_def opt_row_def opt_type opt_text opt_clean)
qed

section \<open>Facts about the loop over the rows, \<open>load_mtg_set\<close> and \<open>main\<close>\<close>

lemma normalize_rows_Inr:
  "normalize_rows acc rows = Inr cards \<Longrightarrow>
   \<exists>cs. cards = acc @ cs \<and> list_all2 (\<lambda>r c. normalize_card r = Inr c) rows cs"
proof (induction rows arbitrary: acc)
  case Nil
  then show ?case by simp
next
  case (Cons row rows)
  then obtain c where c: "normalize_card row = Inr c"
    and rest: "normalize_rows (acc @ [c]) rows = Inr cards"
    by (auto split: sum.splits)
  from Cons.IH [OF rest] obtain cs where
    "cards = (acc @ [c]) @ cs" "list_all2 (\<lambda>r c. normalize_card r = Inr c) rows cs"
    by blast
  with c have "cards = acc @ (c # cs) \<and> list_all2 (\<lambda>r c. normalize_card r = Inr c) (row # rows) (c # cs)"
    by simp
  then show ?case by blast
qed

lemma normalize_rows_total:
  "(\<exists>e. normalize_rows acc rows = Inl e) \<or> (\<exists>cards. normalize_rows acc rows = Inr cards)"
  by (cases "normalize_rows acc rows") auto


lemma load_mtg_set_Inr:
  assumes "load_mtg_set db set_code = Inr (sd, cards)"
  shows "normalize_rows [] (select_cards db set_code) = Inr cards \<and> select_set db set_code \<noteq> []"
  using assms
  by (auto simp: load_mtg_set_def Let_def split: sum.splits option.splits)

lemma load_mtg_set_card_fails:
  assumes "normalize_rows [] (select_cards db set_code) = Inl e"
  shows "load_mtg_set db set_code = Inl e"
  using assms by (simp add: load_mtg_set_def Let_def)

lemma main_load_fails:
  assumes "load_mtg_set db set_code = Inl e"
  shows "\<exists>e'. main environ db set_code = Inl e'"
  using assms by (auto simp: main_def split: sum.splits)

lemma select_opt_DOM: "select_cards dom_db (str ''DOM'') = [opt_row]"
  by (simp add: select_cards_def dom_db_def opt_row_def str_def)

lemma select_opt_M19: "select_cards dom_db (str ''M19'') = [opt_row]"
  by (simp add: select_cards_def dom_db_def opt_row_def str_def)

lemma select_set_DOM: "select_set dom_db (str ''DOM'') =
    [\<lparr>code = Some (str ''DOM''), row_name = Some (str ''Dominaria''),
      releaseDate = Some (str ''2018-04-27''), row_type = Some (str ''expansion'')\<rparr>]"
  by (simp add: select_set_def dom_db_def)

lemma select_set_M19: "select_set dom_db (str ''M19'') = []"
  by (simp add: select_set_def dom_db_def str_def)

lemma load_DOM: "load_mtg_set dom_db (str ''DOM'') = Inr (dom_set, [opt_card])"
  by (simp add: load_mtg_set_def select_opt_DOM select_set_DOM normalize_opt_row dom_set_def
      opt_card_def)

lemma api_key_set_ok: "get_api_key api_key_set = Inr (str ''sk'')"
  by (simp add: get_api_key_def api_key_set_def)

lemma explain_DOM:
  "explain_set dom_set @ explain_cards [opt_card] @ [10] =
     str ''name|release|type'' @ [10] @
     str ''Dominaria|2018-04-27|expansion'' @ [10] @
     str ''type|mana_cost|name|power|toughness|rarity|text'' @ [10] @
     str ''I|U|Opt|||C|NAME: SC 1.'' @ [10, 10]"
  by (simp add: explain_set_def explain_cards_def csv_row_def csv_field_def dom_set_def
      opt_card_def opt_row_def str_def)

lemma PROMPT_not_empty: "PROMPT \<noteq> []"
  by (simp add: PROMPT_def)




lemma list_all2_right_mem:
  "list_all2 P xs ys \<Longrightarrow> y \<in> set ys \<Longrightarrow> \<exists>x\<in>set xs. P x y"
  by (induction rule: list_all2_induct) auto


lemma normalize_card_unknown_rarity:
  assumes "rarity row = Some k" "map_of RARITY_MAPPING k = None"
  shows "\<exists>e. normalize_card row = Inl e"
    and "card_type row \<noteq> None \<Longrightarrow> card_text row \<noteq> None \<Longrightarrow> name row \<noteq> None \<Longrightarrow>
         normalize_card row = Inl (KeyError (Some k))"
  using assms by (auto simp: normalize_card_def split: option.splits)

lemma forest_name: "apply_replacements LAND_MAPPING (str ''Forest'') = str ''FoL''"
  by (simp add: LAND_MAPPING_def str_def)

lemma forest_type:
  "abbreviate_card_type (str ''Basic Land '' @ [8212] @ str '' Forest'') =
     str ''BaL L '' @ [8212] @ str '' FoL''"
  by (simp add: abbreviate_card_type_def mapping_defs str_def lower_def)

section \<open>Facts about the tables\<close>

lemma length_lower [simp]: "length (lower s) = length s"
  by (simp add: lower_def)

lemma codes_short: "list_all (\<lambda>(k, v). length v \<le> 3) all_mappings"
  by (simp add: all_mappings_def mapping_defs str_def)

lemma keys_long_or_short: "list_all (\<lambda>(k, v). 4 \<le> length k \<or> k \<in> set short_keys) all_mappings"
  by (simp add: all_mappings_def mapping_defs str_def short_keys_def)

lemma short_keys_absent:
  "list_all (\<lambda>k. list_all (\<lambda>(k', v'). \<not> sublist k v' \<and> \<not> sublist (lower k) v') all_mappings) short_keys"
  by (simp add: all_mappings_def mapping_defs str_def short_keys_def lower_def sublist_Cons_right)

lemma in_all_mappings:
  "set TEXT_MAPPING \<subseteq> set all_mappings" "set SUPER_TYPE_MAPPING \<subseteq> set all_mappings"
  "set SUB_TYPE_MAPPING \<subseteq> set all_mappings" "set LAND_MAPPING \<subseteq> set all_mappings"
  "set KEYWORD_MAPPING \<subseteq> set all_mappings" "set NUMBER_MAPPING \<subseteq> set all_mappings"
  "set MANA_COST_MAPPING \<subseteq> set all_mappings"
  by (auto simp: all_mappings_def)

lemma keys_not_empty: "\<forall>(k, v)\<in>set all_mappings. k \<noteq> []"
  using keys_long_or_short by (auto simp: list_all_iff short_keys_def str_def)

lemma key_not_in_code:
  assumes "(k, v) \<in> set all_mappings" "(k', v') \<in> set all_mappings"
  shows "\<not> sublist k v' \<and> \<not> sublist (lower k) v'"
proof -
  from codes_short assms(2) have v': "length v' \<le> 3"
    by (auto simp: list_all_iff)
  from keys_long_or_short assms(1) consider "4 \<le> length k" | "k \<in> set short_keys"
    by (auto simp: list_all_iff)
  then show ?thesis
  proof cases
    case 1
    with v' have "\<not> length k \<le> length v'" "\<not> length (lower k) \<le> length v'"
      by simp_all
    then show ?thesis
      using sublist_length_le by blast
  next
    case 2
    with short_keys_absent assms(2) show ?thesis
      by (auto simp: list_all_iff)
  qed
qed

lemma code_unchanged:
  assumes "(k', v') \<in> set all_mappings" "set m \<subseteq> set all_mappings"
  shows "apply_abbreviations m v' = v'" "apply_replacements m v' = v'"
proof -
  have "\<forall>(k, v)\<in>set m. k \<noteq> [] \<and> \<not> sublist k v' \<and> \<not> sublist (lower k) v'"
    using assms key_not_in_code keys_not_empty by blast
  then show "apply_abbreviations m v' = v'" "apply_replacements m v' = v'"
    by (auto intro!: apply_abbreviations_absent apply_replacements_absent)
qed

section \<open>The claims\<close>

text \<open>
  C1, as amended. Every application of a table to the type line and to the rules text
  makes two literal passes per pair, the pattern as written and then its lowercase
  variant, both to the same code; this includes the removal of the braces from the rules
  text and from the mana cost, where the second pass finds nothing left. The rewrite of
  the card's own name by the land table makes the first pass only.
\<close>

theorem C1_passes_per_dictionary:
  assumes "normalize_card row = Inr c"
  shows "card_type c =
      map_option (\<lambda>t. spec_two_passes LAND_MAPPING (spec_two_passes SUB_TYPE_MAPPING
        (spec_two_passes SUPER_TYPE_MAPPING t))) (card_type row)
    \<and> (\<exists>nm t. name row = Some nm \<and> card_text row = Some t \<and>
          card_text c = Some (clean_text nm
            (spec_two_passes MANA_COST_MAPPING (spec_two_passes NUMBER_MAPPING
              (spec_two_passes KEYWORD_MAPPING (spec_two_passes LAND_MAPPING
                (spec_two_passes SUB_TYPE_MAPPING (spec_two_passes SUPER_TYPE_MAPPING
                  (spec_two_passes TEXT_MAPPING t)))))))))
    \<and> mana_cost c = map_option (spec_two_passes MANA_COST_MAPPING) (mana_cost row)
    \<and> name c = map_option (spec_exact_pass LAND_MAPPING) (name row)"
proof -
  from normalize_card_InrD [OF assms] obtain ctype t nm where
    row: "card_type row = Some ctype" "card_text row = Some t" "name row = Some nm" and
    c: "card_type c = Some (abbreviate_card_type ctype)"
       "card_text c = Some (clean_text nm (abbreviate_text t))"
       "name c = Some (apply_replacements LAND_MAPPING nm)"
       "mana_cost c = map_option (apply_replacements MANA_COST_MAPPING) (mana_cost row)"
    by blast
  have mana: "apply_replacements MANA_COST_MAPPING = spec_two_passes MANA_COST_MAPPING"
    by (rule ext) (simp add: apply_replacements_fold strip_braces_two_passes)
  show ?thesis
    using row c
    by (simp add: abbreviate_card_type_def abbreviate_text_def apply_abbreviations_fold mana)
      (simp add: apply_replacements_fold)
qed

theorem C1_passes_per_dictionary_witness:
  "normalize_card opt_row = Inr (opt_row\<lparr>card_type := Some (str ''I''), card_text := Some (str ''NAME: SC 1.''),
      rarity := Some (str ''C''), mana_cost := Some (str ''U'')\<rparr>)
   \<and> spec_exact_pass LAND_MAPPING (str ''Opt'') = str ''Opt''
   \<and> spec_two_passes MANA_COST_MAPPING (str ''{U}'') = str ''U''
   \<and> spec_two_passes LAND_MAPPING (spec_two_passes SUB_TYPE_MAPPING
        (spec_two_passes SUPER_TYPE_MAPPING (str ''Instant''))) = str ''I''"
proof -
  note w = C1_passes_per_dictionary [OF normalize_opt_row]
  from w have "Some (str ''Opt'') = map_option (spec_exact_pass LAND_MAPPING) (Some (str ''Opt''))"
    by (simp add: opt_row_def)
  then have a: "spec_exact_pass LAND_MAPPING (str ''Opt'') = str ''Opt''"
    by simp
  from w have "Some (str ''U'') = map_option (spec_two_passes MANA_COST_MAPPING) (Some (str ''{U}''))"
    by (simp add: opt_row_def)
  then have b: "spec_two_passes MANA_COST_MAPPING (str ''{U}'') = str ''U''"
    by simp
  from w have "Some (str ''I'') = map_option (\<lambda>t. spec_two_passes LAND_MAPPING
      (spec_two_passes SUB_TYPE_MAPPING (spec_two_passes SUPER_TYPE_MAPPING t))) (Some (str ''Instant''))"
    by (simp add: opt_row_def)
  then have c: "spec_two_passes LAND_MAPPING (spec_two_passes SUB_TYPE_MAPPING
        (spec_two_passes SUPER_TYPE_MAPPING (str ''Instant''))) = str ''I''"
    by simp
  from a b c normalize_opt_row show ?thesis
    by blast
qed

text \<open>
  C1 as stated fails on the name: a name with a lowercase \<open>forest\<close> in it is left as it
  is, where two passes would have rewritten it.
\<close>

theorem C1_name_pass_counterexample:
  "\<exists>c. normalize_card (opt_row\<lparr>name := Some (str ''Rainforest'')\<rparr>) = Inr c
     \<and> name c = Some (str ''Rainforest'')
     \<and> spec_two_passes LAND_MAPPING (str ''Rainforest'') = str ''RainFoL''"
proof -
  have "\<exists>c. normalize_card (opt_row\<lparr>name := Some (str ''Rainforest'')\<rparr>) = Inr c"
    by (rule normalize_card_InrI [where k = "str ''common''"])
      (simp_all add: opt_row_def RARITY_MAPPING_def)
  then obtain c where c: "normalize_card (opt_row\<lparr>name := Some (str ''Rainforest'')\<rparr>) = Inr c" ..
  have "apply_replacements LAND_MAPPING (str ''Rainforest'') = str ''Rainforest''"
    by (simp add: LAND_MAPPING_def str_def)
  with normalize_card_InrD [OF c] have "name c = Some (str ''Rainforest'')"
    by auto
  moreover have "spec_two_passes LAND_MAPPING (str ''Rainforest'') = str ''RainFoL''"
    by (simp add: spec_two_passes_def LAND_MAPPING_def str_def lower_def)
  ultimately show ?thesis
    using c by blast
qed



text \<open>
  C3. The claim is that the removal of explanation text deletes each parenthesized span
  and keeps what stands between two of them. The code deletes from the first opening
  parenthesis to the last closing one of the line: of the two abilities \<open>Flying (a)\<close>
  and \<open>Draw a card. (b)\<close>, on two lines of the rules text, the second is lost with the
  explanations.
\<close>

theorem C3_reminder_removal_is_greedy:
  "abbreviate_text (str ''Flying (a)'' @ [10] @ str ''Draw a card. (b)'') = str ''FLY (a) DAC. (b)''
   \<and> re_sub_paren (str ''FLY (a) DAC. (b)'') = str ''FLY ''
   \<and> clean_text (str ''Opt'') (str ''FLY (a) DAC. (b)'') = str ''FLY''"
proof -
  have "abbreviate_text (str ''Flying (a)'' @ [10] @ str ''Draw a card. (b)'') = str ''FLY (a) DAC. (b)''"
    by (simp add: abbreviate_text_def mapping_defs str_def lower_def)
  moreover have r: "re_sub_paren (str ''FLY (a) DAC. (b)'') = str ''FLY ''"
    by (simp add: str_def greedy_end_def)
  moreover have "clean_text (str ''Opt'') (str ''FLY (a) DAC. (b)'') = str ''FLY''"
    unfolding clean_text_def r by (simp add: str_def strip_def isspace_def)
  ultimately show ?thesis
    by blast
qed

text \<open>
  C4, as amended. For a card that is normalized and whose name is not empty: right after
  the name has been replaced, the rules text is a sequence of pieces that hold no
  occurrence of the name, with \<open>NAME\<close> between them where the name stood; so it holds
  no occurrence of the name when the name and \<open>NAME\<close> do not overlap. The rules text of
  the normalized card holds the name only where the text, after the replacement, held a
  string that the cleaning of white space turns into the name; it holds no occurrence
  of a name that does not overlap \<open>NAME\<close> when the name has no space (32) in it, or
  when the cleaning finds no white space to collapse.
\<close>

theorem C4_name_not_in_text:
  assumes "normalize_card row = Inr c" "name row = Some nm" "card_text row = Some t" "nm \<noteq> []"
  shows "(\<exists>pieces. re_sub_paren (abbreviate_text t) = join nm pieces
            \<and> replace nm (str ''NAME'') (re_sub_paren (abbreviate_text t)) = join (str ''NAME'') pieces
            \<and> (\<forall>p\<in>set pieces. \<not> sublist nm p))
    \<and> (\<not> overlaps_placeholder nm \<longrightarrow>
          \<not> sublist nm (replace nm (str ''NAME'') (re_sub_paren (abbreviate_text t))))
    \<and> (\<exists>t'. card_text c = Some t'
          \<and> (sublist nm t' \<longrightarrow>
               (\<exists>w. sublist w (replace nm (str ''NAME'') (re_sub_paren (abbreviate_text t)))
                  \<and> re_sub_space w = nm))
          \<and> (\<not> overlaps_placeholder nm \<and> 32 \<notin> set nm \<longrightarrow> \<not> sublist nm t')
          \<and> (\<not> overlaps_placeholder nm
               \<and> re_sub_space (strip (replace nm (str ''NAME'') (re_sub_paren (abbreviate_text t)))) =
                   strip (replace nm (str ''NAME'') (re_sub_paren (abbreviate_text t))) \<longrightarrow>
               \<not> sublist nm t'))"
proof -
  let ?t0 = "re_sub_paren (abbreviate_text t)"
  let ?t1 = "replace nm (str ''NAME'') ?t0"
  from replace_pieces [OF assms(4), of ?t0 "str ''NAME''"]
  have pieces: "\<exists>pieces. ?t0 = join nm pieces \<and> ?t1 = join (str ''NAME'') pieces
            \<and> (\<forall>p\<in>set pieces. \<not> sublist nm p)"
    by blast
  have no: "\<not> sublist nm ?t1" if "\<not> overlaps_placeholder nm"
    using that by (rule replace_placeholder_no_occurrence)
  have c: "card_text c = Some (re_sub_space (strip ?t1))"
    using normalize_card_InrD [OF assms(1)] assms(2,3) by (auto simp: clean_text_def)
  have pre: "\<exists>w. sublist w ?t1 \<and> re_sub_space w = nm" if "sublist nm (re_sub_space (strip ?t1))"
  proof -
    from sublist_re_sub_space_preimage [OF that] obtain w where
      w: "sublist w (strip ?t1)" "re_sub_space w = nm"
      by blast
    from w(1) have "sublist w ?t1"
      using sublist_strip sublist_order.order_trans by blast
    with w(2) show ?thesis by blast
  qed
  have fin: "\<not> sublist nm (re_sub_space (strip ?t1))"
    if "\<not> overlaps_placeholder nm" "32 \<notin> set nm"
  proof
    assume "sublist nm (re_sub_space (strip ?t1))"
    from pre [OF this] obtain w where w: "sublist w ?t1" "re_sub_space w = nm"
      by blast
    with that(2) have "w = nm"
      using re_sub_space_no_space [of w] by simp
    with w(1) no [OF that(1)] show False by simp
  qed
  have same: "\<not> sublist nm (re_sub_space (strip ?t1))"
    if "\<not> overlaps_placeholder nm" "re_sub_space (strip ?t1) = strip ?t1"
  proof
    assume "sublist nm (re_sub_space (strip ?t1))"
    with that(2) have "sublist nm (strip ?t1)"
      by simp
    then have "sublist nm ?t1"
      using sublist_strip sublist_order.order_trans by blast
    with no [OF that(1)] show False ..
  qed
  from pieces no c pre fin same show ?thesis
    by blast
qed

theorem C4_name_not_in_text_witness:
  "normalize_card opt_row = Inr opt_card
   \<and> \<not> sublist (str ''Opt'') (replace (str ''Opt'') (str ''NAME'') (re_sub_paren (abbreviate_text (str ''Opt: Scry 1. (x)''))))
   \<and> \<not> sublist (str ''Opt'') (str ''NAME: SC 1.'')
   \<and> (\<exists>c. normalize_card (opt_row\<lparr>name := Some (str ''Tide Pool''),
              card_text := Some (str ''Tide Pool x'')\<rparr>) = Inr c
        \<and> card_text c = Some (str ''NAME x'')
        \<and> \<not> sublist (str ''Tide Pool'') (str ''NAME x''))"
proof -
  have n: "normalize_card opt_row = Inr opt_card"
    by (simp add: normalize_opt_row opt_card_def)
  have h: "name opt_row = Some (str ''Opt'')" "card_text opt_row = Some (str ''Opt: Scry 1. (x)'')"
    "str ''Opt'' \<noteq> []"
    by (simp_all add: opt_row_def str_def)
  have o: "\<not> overlaps_placeholder (str ''Opt'')" "32 \<notin> set (str ''Opt'')"
    by (simp_all add: overlaps_placeholder_def str_def sublist_Cons_right prefixes_tailrec
        suffixes_tailrec suffix_to_prefix)
  have t: "card_text opt_card = Some (str ''NAME: SC 1.'')"
    by (simp add: opt_card_def)
  from C4_name_not_in_text [OF n h] o t have 1:
    "\<not> sublist (str ''Opt'') (replace (str ''Opt'') (str ''NAME'') (re_sub_paren (abbreviate_text (str ''Opt: Scry 1. (x)''))))"
    "\<not> sublist (str ''Opt'') (str ''NAME: SC 1.'')"
    by auto
  let ?row = "opt_row\<lparr>name := Some (str ''Tide Pool''), card_text := Some (str ''Tide Pool x'')\<rparr>"
  have "\<exists>c. normalize_card ?row = Inr c"
    by (rule normalize_card_InrI [where k = "str ''common''"])
      (simp_all add: opt_row_def RARITY_MAPPING_def)
  then obtain c where c: "normalize_card ?row = Inr c" ..
  have h2: "name ?row = Some (str ''Tide Pool'')" "card_text ?row = Some (str ''Tide Pool x'')"
    "str ''Tide Pool'' \<noteq> []"
    by (simp_all add: opt_row_def str_def)
  have o2: "\<not> overlaps_placeholder (str ''Tide Pool'')"
    by (simp add: overlaps_placeholder_def str_def sublist_Cons_right prefixes_tailrec
        suffixes_tailrec suffix_to_prefix)
  have a2: "abbreviate_text (str ''Tide Pool x'') = str ''Tide Pool x''"
    by (simp add: abbreviate_text_def mapping_defs str_def lower_def)
  have r2: "replace (str ''Tide Pool'') (str ''NAME'') (re_sub_paren (str ''Tide Pool x'')) = str ''NAME x''"
    by (simp add: str_def greedy_end_def)
  have s2: "strip (str ''NAME x'') = str ''NAME x''" "re_sub_space (str ''NAME x'') = str ''NAME x''"
    by (simp_all add: str_def strip_def isspace_def)
  have t2: "card_text c = Some (str ''NAME x'')"
    using normalize_card_InrD [OF c] by (auto simp: clean_text_def a2 r2 s2)
  from C4_name_not_in_text [OF c h2] o2 t2 have "\<not> sublist (str ''Tide Pool'') (str ''NAME x'')"
    by (auto simp: a2 r2 s2)
  with c t2 1 n show ?thesis
    by blast
qed

text \<open>
  C4 as stated fails in three ways. The white space is cleaned after the name has been
  replaced, so a name written with two spaces in the rules text is not replaced and comes
  out as the name itself. A name that overlaps \<open>NAME\<close> can stand across the edge of a
  placeholder (\<open>Elf\<close> in \<open>NAMElf\<close>, \<open>ION\<close> in \<open>IONAME\<close>), inside it (\<open>A\<close>) or
  around it (\<open>NAMES\<close>). The empty name occurs in every text.
\<close>

theorem C4_name_in_text_counterexample:
  "(\<exists>c. normalize_card (opt_row\<lparr>name := Some (str ''Tide Pool''),
            card_text := Some (str ''Tide  Pool'')\<rparr>) = Inr c
        \<and> card_text c = Some (str ''Tide Pool''))
   \<and> (\<exists>c. normalize_card (opt_row\<lparr>name := Some (str ''Elf''),
            card_text := Some (str ''Elflf'')\<rparr>) = Inr c
        \<and> card_text c = Some (str ''NAMElf'') \<and> sublist (str ''Elf'') (str ''NAMElf''))
   \<and> (\<exists>c. normalize_card (opt_row\<lparr>name := Some (str ''ION''),
            card_text := Some (str ''IOION'')\<rparr>) = Inr c
        \<and> card_text c = Some (str ''IONAME'') \<and> sublist (str ''ION'') (str ''IONAME''))
   \<and> (\<exists>c. normalize_card (opt_row\<lparr>name := Some (str ''A''),
            card_text := Some (str ''A'')\<rparr>) = Inr c
        \<and> card_text c = Some (str ''NAME'') \<and> sublist (str ''A'') (str ''NAME''))
   \<and> (\<exists>c. normalize_card (opt_row\<lparr>name := Some (str ''NAMES''),
            card_text := Some (str ''NAMESS'')\<rparr>) = Inr c
        \<and> card_text c = Some (str ''NAMES''))
   \<and> (\<exists>c. normalize_card (opt_row\<lparr>name := Some [],
            card_text := Some (str ''ab'')\<rparr>) = Inr c
        \<and> card_text c = Some (str ''NAMEaNAMEbNAME'') \<and> sublist [] (str ''NAMEaNAMEbNAME''))"
proof -
  have ex: "\<exists>c. normalize_card (opt_row\<lparr>name := Some nm, card_text := Some t\<rparr>) = Inr c
      \<and> card_text c = Some (clean_text nm (abbreviate_text t))" for nm t
  proof -
    have "\<exists>c. normalize_card (opt_row\<lparr>name := Some nm, card_text := Some t\<rparr>) = Inr c"
      by (rule normalize_card_InrI [where k = "str ''common''"])
        (simp_all add: opt_row_def RARITY_MAPPING_def)
    then obtain c where c: "normalize_card (opt_row\<lparr>name := Some nm, card_text := Some t\<rparr>) = Inr c" ..
    from normalize_card_InrD [OF c] have "card_text c = Some (clean_text nm (abbreviate_text t))"
      by auto
    with c show ?thesis by blast
  qed
  have a: "abbreviate_text (str ''Tide  Pool'') = str ''Tide  Pool''"
    "abbreviate_text (str ''Elflf'') = str ''Elflf''"
    "abbreviate_text (str ''IOION'') = str ''IOION''"
    "abbreviate_text (str ''A'') = str ''A''"
    "abbreviate_text (str ''NAMESS'') = str ''NAMESS''"
    "abbreviate_text (str ''ab'') = str ''ab''"
    by (simp_all add: abbreviate_text_def mapping_defs str_def lower_def)
  have b: "clean_text (str ''Tide Pool'') (str ''Tide  Pool'') = str ''Tide Pool''"
    "clean_text (str ''Elf'') (str ''Elflf'') = str ''NAMElf''"
    "clean_text (str ''ION'') (str ''IOION'') = str ''IONAME''"
    "clean_text (str ''A'') (str ''A'') = str ''NAME''"
    "clean_text (str ''NAMES'') (str ''NAMESS'') = str ''NAMES''"
    "clean_text [] (str ''ab'') = str ''NAMEaNAMEbNAME''"
    by (simp_all add: clean_text_def str_def strip_def isspace_def greedy_end_def)
  have s: "sublist (str ''Elf'') (str ''NAMElf'')" "sublist (str ''ION'') (str ''IONAME'')"
    "sublist (str ''A'') (str ''NAME'')"
    by (simp_all add: str_def sublist_Cons_right)
  from ex [where nm = "str ''Tide Pool''" and t = "str ''Tide  Pool''"]
    ex [where nm = "str ''Elf''" and t = "str ''Elflf''"]
    ex [where nm = "str ''ION''" and t = "str ''IOION''"]
    ex [where nm = "str ''A''" and t = "str ''A''"]
    ex [where nm = "str ''NAMES''" and t = "str ''NAMESS''"]
    ex [where nm = "[]" and t = "str ''ab''"]
    a b s
  show ?thesis
    by simp
qed

text \<open>
  C5, as amended. The prompt is the set block followed by the card block, with nothing
  between them, and this text (with the line feed that \<open>print\<close> adds) is all that
  \<open>main\<close> writes; the template \<open>PROMPT\<close> is not part of it.
\<close>

theorem C5_prompt_text:
  "generate_prompt sd cs = explain_set sd @ explain_cards cs
   \<and> (main environ db set_code = Inr out \<longrightarrow>
        (\<exists>set_data (cards :: 'v card list).
           load_mtg_set db set_code = Inr (set_data, cards) \<and>
           out = explain_set set_data @ explain_cards cards @ [10]))"
  by (auto simp: generate_prompt_def main_def Let_def split: sum.splits)

theorem C5_prompt_text_witness:
  "main api_key_set dom_db (str ''DOM'') =
     Inr (str ''name|release|type'' @ [10] @
          str ''Dominaria|2018-04-27|expansion'' @ [10] @
          str ''type|mana_cost|name|power|toughness|rarity|text'' @ [10] @
          str ''I|U|Opt|||C|NAME: SC 1.'' @ [10, 10])
   \<and> load_mtg_set dom_db (str ''DOM'') = Inr (dom_set, [opt_card])"
proof -
  have m: "main api_key_set dom_db (str ''DOM'') =
      Inr (explain_set dom_set @ explain_cards [opt_card] @ [10])"
    by (simp add: main_def api_key_set_ok load_DOM generate_prompt_def)
  from C5_prompt_text [of dom_set "[opt_card]" api_key_set dom_db "str ''DOM''"
      "explain_set dom_set @ explain_cards [opt_card] @ [10]"] m
  have "\<exists>set_data cards. load_mtg_set dom_db (str ''DOM'') = Inr (set_data, cards) \<and>
      explain_set dom_set @ explain_cards [opt_card] @ [10] =
      explain_set set_data @ explain_cards cards @ [10]"
    by blast
  with m load_DOM show ?thesis
    by (simp add: explain_DOM)
qed

text \<open>
  C5 as stated fails: the prompt of the sample set starts with the header of the set
  block, not with the template.
\<close>

theorem C5_template_counterexample:
  "generate_prompt dom_set [opt_card] =
     str ''name|release|type'' @ [10] @
     str ''Dominaria|2018-04-27|expansion'' @ [10] @
     str ''type|mana_cost|name|power|toughness|rarity|text'' @ [10] @
     str ''I|U|Opt|||C|NAME: SC 1.'' @ [10]
   \<and> generate_prompt dom_set [opt_card] \<noteq> PROMPT @ explain_set dom_set @ explain_cards [opt_card]"
proof -
  have "generate_prompt dom_set [opt_card] @ [10] =
     (str ''name|release|type'' @ [10] @
     str ''Dominaria|2018-04-27|expansion'' @ [10] @
     str ''type|mana_cost|name|power|toughness|rarity|text'' @ [10] @
     str ''I|U|Opt|||C|NAME: SC 1.'' @ [10]) @ [10]"
    using explain_DOM by (simp add: generate_prompt_def)
  then have "generate_prompt dom_set [opt_card] =
     str ''name|release|type'' @ [10] @
     str ''Dominaria|2018-04-27|expansion'' @ [10] @
     str ''type|mana_cost|name|power|toughness|rarity|text'' @ [10] @
     str ''I|U|Opt|||C|NAME: SC 1.'' @ [10]"
    by (simp only: append_same_eq)
  moreover have "generate_prompt dom_set [opt_card] \<noteq>
      PROMPT @ explain_set dom_set @ explain_cards [opt_card]"
    using PROMPT_not_empty by (simp add: generate_prompt_def)
  ultimately show ?thesis
    by blast
qed




text \<open>
  C7, as amended. When the query for the set has no row, \<open>load_mtg_set\<close> does not fail
  at the query: the cards are selected and normalized, and an error of a card is the
  error of the function. When all cards are normalized, the function fails at its
  \<open>return\<close> statement, which reads the variable \<open>set_data\<close> that was never assigned.
  In both cases the function does not return and \<open>main\<close> prints nothing.
\<close>

theorem C7_no_set_row:
  assumes "select_set db set_code = []"
  shows "(\<forall>e. normalize_rows [] (select_cards db set_code) = Inl e \<longrightarrow>
            load_mtg_set db set_code = Inl e)
    \<and> (\<forall>cards. normalize_rows [] (select_cards db set_code) = Inr cards \<longrightarrow>
            load_mtg_set db set_code = Inl UnboundLocalError)
    \<and> (\<exists>e. load_mtg_set db set_code = Inl e)
    \<and> (\<exists>e. main environ db set_code = Inl e)"
proof -
  have a: "load_mtg_set db set_code = Inl e"
    if "normalize_rows [] (select_cards db set_code) = Inl e" for e
    using that by (rule load_mtg_set_card_fails)
  have b: "load_mtg_set db set_code = Inl UnboundLocalError"
    if "normalize_rows [] (select_cards db set_code) = Inr cards" for cards
    using that assms by (simp add: load_mtg_set_def)
  from a b normalize_rows_total [of "[]" "select_cards db set_code"]
  obtain e where e: "load_mtg_set db set_code = Inl e"
    by blast
  from main_load_fails [OF e] e a b show ?thesis
    by blast
qed

theorem C7_no_set_row_witness:
  "select_set dom_db (str ''M19'') = []
   \<and> normalize_rows [] (select_cards dom_db (str ''M19'')) = Inr [opt_card]
   \<and> load_mtg_set dom_db (str ''M19'') = Inl UnboundLocalError
   \<and> (\<exists>e. main api_key_set dom_db (str ''M19'') = Inl e)"
proof -
  have n: "normalize_rows [] (select_cards dom_db (str ''M19'')) = Inr [opt_card]"
    by (simp add: select_opt_M19 normalize_opt_row opt_card_def)
  from C7_no_set_row [OF select_set_M19, of api_key_set] n select_set_M19 show ?thesis
    by blast
qed

text \<open>
  C7 as stated fails: for a set code that has cards but no row in \<open>sets\<close>, the function
  returns nothing and \<open>main\<close> ends with \<open>UnboundLocalError\<close>.
\<close>

theorem C7_unbound_set_data_counterexample:
  "\<not> (\<exists>set_data cards. load_mtg_set dom_db (str ''M19'') = Inr (set_data, cards))
   \<and> main api_key_set dom_db (str ''M19'') = Inl UnboundLocalError"
proof -
  have "load_mtg_set dom_db (str ''M19'') = Inl UnboundLocalError"
    by (simp add: load_mtg_set_def select_set_M19 select_opt_M19 normalize_opt_row)
  then show ?thesis
    by (simp add: main_def api_key_set_ok)
qed

text \<open>
  C8, as amended. The card named \<open>Forest\<close> has its name rewritten to \<open>FoL\<close>, and its
  type line (\<open>Basic Land\<close>, em dash, \<open>Forest\<close>) rewritten by the tables, the land table
  among them; a name in which no key of the land table occurs is left as it is.
\<close>

theorem C8_land_names:
  assumes "normalize_card row = Inr c" "name row = Some nm" "card_type row = Some ctype"
  shows "(nm = str ''Forest'' \<longrightarrow> name c = Some (str ''FoL''))
    \<and> (ctype = str ''Basic Land '' @ [8212] @ str '' Forest'' \<longrightarrow>
          card_type c = Some (str ''BaL L '' @ [8212] @ str '' FoL''))
    \<and> ((\<forall>(k, v)\<in>set LAND_MAPPING. \<not> sublist k nm) \<longrightarrow> name c = Some nm)"
proof -
  from normalize_card_InrD [OF assms(1)] assms(2,3)
  have c: "name c = Some (apply_replacements LAND_MAPPING nm)"
    "card_type c = Some (abbreviate_card_type ctype)"
    by auto
  have "apply_replacements LAND_MAPPING nm = nm" if "\<forall>(k, v)\<in>set LAND_MAPPING. \<not> sublist k nm"
  proof (rule apply_replacements_absent)
    have "\<forall>(k, v)\<in>set LAND_MAPPING. k \<noteq> []"
      by (simp add: LAND_MAPPING_def str_def)
    with that show "\<forall>(k, v)\<in>set LAND_MAPPING. k \<noteq> [] \<and> \<not> sublist k nm"
      by blast
  qed
  with c forest_name forest_type show ?thesis
    by auto
qed

theorem C8_land_names_witness:
  "(\<exists>c. normalize_card forest_row = Inr c \<and> name c = Some (str ''FoL'')
        \<and> card_type c = Some (str ''BaL L '' @ [8212] @ str '' FoL''))
   \<and> normalize_card opt_row = Inr opt_card
   \<and> name opt_card = Some (str ''Opt'')"
proof -
  have "\<exists>c. normalize_card forest_row = Inr c"
    by (rule normalize_card_InrI [where k = "str ''common''"])
      (simp_all add: forest_row_def RARITY_MAPPING_def)
  then obtain c where c: "normalize_card forest_row = Inr c" ..
  have f: "name forest_row = Some (str ''Forest'')"
    "card_type forest_row = Some (str ''Basic Land '' @ [8212] @ str '' Forest'')"
    by (simp_all add: forest_row_def)
  from C8_land_names [OF c f] have
    "name c = Some (str ''FoL'')" "card_type c = Some (str ''BaL L '' @ [8212] @ str '' FoL'')"
    by blast+
  with c have 1: "\<exists>c. normalize_card forest_row = Inr c \<and> name c = Some (str ''FoL'')
        \<and> card_type c = Some (str ''BaL L '' @ [8212] @ str '' FoL'')"
    by blast
  have n: "normalize_card opt_row = Inr opt_card"
    by (simp add: normalize_opt_row opt_card_def)
  have o: "name opt_row = Some (str ''Opt'')" "card_type opt_row = Some (str ''Instant'')"
    "\<forall>(k, v)\<in>set LAND_MAPPING. \<not> sublist k (str ''Opt'')"
    by (simp_all add: opt_row_def LAND_MAPPING_def str_def sublist_Cons_right)
  from C8_land_names [OF n o(1,2)] o(3) have "name opt_card = Some (str ''Opt'')"
    by blast
  with 1 n show ?thesis
    by blast
qed

text \<open>
  C8 as stated fails: the name of a creature that is not a basic land is rewritten when
  a key of the land table occurs in it.
\<close>

theorem C8_nonbasic_name_counterexample:
  "\<exists>c. normalize_card (opt_row\<lparr>name := Some (str ''Island Fish Jasconius''),
            card_type := Some (str ''Creature '' @ [8212] @ str '' Fish'')\<rparr>) = Inr c
     \<and> name c = Some (str ''IsL Fish Jasconius'')"
proof -
  let ?row = "opt_row\<lparr>name := Some (str ''Island Fish Jasconius''),
            card_type := Some (str ''Creature '' @ [8212] @ str '' Fish'')\<rparr>"
  have "\<exists>c. normalize_card ?row = Inr c"
    by (rule normalize_card_InrI [where k = "str ''common''"])
      (simp_all add: opt_row_def RARITY_MAPPING_def)
  then obtain c where c: "normalize_card ?row = Inr c" ..
  have "apply_replacements LAND_MAPPING (str ''Island Fish Jasconius'') = str ''IsL Fish Jasconius''"
    by (simp add: LAND_MAPPING_def str_def)
  with normalize_card_InrD [OF c] have "name c = Some (str ''IsL Fish Jasconius'')"
    by auto
  with c show ?thesis
    by blast
qed

text \<open>
  C9, as amended. No key of a table, as written or in lowercase, occurs in a code of a
  table, so the rewriting of the type line and the rewriting of the rules text by the
  tables leave every code, taken alone, as it is.
\<close>

theorem C9_codes_hold_no_key:
  "\<forall>(k', v')\<in>set all_mappings.
     (\<forall>(k, v)\<in>set all_mappings. \<not> sublist k v' \<and> \<not> sublist (lower k) v')
     \<and> abbreviate_card_type v' = v' \<and> abbreviate_text v' = v'"
proof (clarify, intro conjI)
  fix k' v'
  assume m: "(k', v') \<in> set all_mappings"
  show "\<forall>(k, v)\<in>set all_mappings. \<not> sublist k v' \<and> \<not> sublist (lower k) v'"
    using key_not_in_code m by blast
  show "abbreviate_card_type v' = v'"
    by (simp add: abbreviate_card_type_def code_unchanged [OF m] in_all_mappings)
  show "abbreviate_text v' = v'"
    by (simp add: abbreviate_text_def code_unchanged [OF m] in_all_mappings)
qed

theorem C9_codes_hold_no_key_witness:
  "\<not> sublist (str ''Wall'') (str ''Wa2'') \<and> \<not> sublist (str ''wall'') (str ''Wa2'')
   \<and> abbreviate_card_type (str ''Wa2'') = str ''Wa2'' \<and> abbreviate_text (str ''Wa2'') = str ''Wa2''"
proof -
  have m: "(str ''Warlock'', str ''Wa2'') \<in> set all_mappings"
    "(str ''Wall'', str ''Wa'') \<in> set all_mappings"
    by (simp_all add: all_mappings_def SUB_TYPE_MAPPING_def)
  have l: "lower (str ''Wall'') = str ''wall''"
    by (simp add: lower_def str_def)
  from C9_codes_hold_no_key m l show ?thesis
    by fastforce
qed

text \<open>
  C9 as stated fails: normalizing a normalized card raises \<open>KeyError\<close>, because the
  rarity code \<open>C\<close> is not a key of \<open>RARITY_MAPPING\<close>; and the rewriting of a rules text
  is not idempotent either, since removing the braces of \<open>On{}e\<close> makes the key \<open>One\<close>.
\<close>

theorem C9_not_idempotent_counterexample:
  "normalize_card opt_row = Inr opt_card
   \<and> normalize_card opt_card = Inl (KeyError (Some (str ''C'')))
   \<and> abbreviate_text (str ''On{}e'') = str ''One''
   \<and> abbreviate_text (str ''One'') = str ''1''"
proof -
  have "normalize_card opt_row = Inr opt_card"
    by (simp add: normalize_opt_row opt_card_def)
  moreover have "normalize_card opt_card = Inl (KeyError (Some (str ''C'')))"
  proof (rule normalize_card_unknown_rarity(2))
    show "rarity opt_card = Some (str ''C'')" "card_type opt_card \<noteq> None"
      "card_text opt_card \<noteq> None" "name opt_card \<noteq> None"
      by (simp_all add: opt_card_def opt_row_def)
    show "map_of RARITY_MAPPING (str ''C'') = None"
      by (simp add: RARITY_MAPPING_def str_def)
  qed
  moreover have "abbreviate_text (str ''On{}e'') = str ''One''"
    by (simp add: abbreviate_text_def mapping_defs str_def lower_def)
  moreover have "abbreviate_text (str ''One'') = str ''1''"
    by (simp add: abbreviate_text_def mapping_defs str_def lower_def)
  ultimately show ?thesis
    by blast
qed

text \<open>
  C10. Whatever the set code, every card that \<open>load_mtg_set\<close> returns has the colors
  field \<open>U\<close>: the query selects only such rows and the loop does not change the field.
\<close>

theorem C10_only_blue_cards:
  assumes "load_mtg_set db set_code = Inr (set_data, cards)"
  shows "\<forall>c\<in>set cards. colors c = Some (str ''U'')"
proof -
  from load_mtg_set_Inr [OF assms]
  have "normalize_rows [] (select_cards db set_code) = Inr cards"
    by simp
  from normalize_rows_Inr [OF this]
  have all2: "list_all2 (\<lambda>r c. normalize_card r = Inr c) (select_cards db set_code) cards"
    by simp
  show ?thesis
  proof
    fix c
    assume "c \<in> set cards"
    with all2 obtain r where r: "r \<in> set (select_cards db set_code)" "normalize_card r = Inr c"
      by (blast dest: list_all2_right_mem)
    from r(1) have "colors r = Some (str ''U'')"
      by (auto simp: select_cards_def)
    with normalize_card_InrD [OF r(2)] show "colors c = Some (str ''U'')"
      by auto
  qed
qed

theorem C10_only_blue_cards_witness:
  "load_mtg_set dom_db (str ''DOM'') = Inr (dom_set, [opt_card])
   \<and> colors opt_card = Some (str ''U'')"
proof -
  from C10_only_blue_cards [OF load_DOM] have "colors opt_card = Some (str ''U'')"
    by simp
  with load_DOM show ?thesis
    by blast
qed

end
